theory Spec2Isabelle
  imports Complex_Main
begin

section \<open>Tables\<close>

text \<open>
  The analyzer of \<^verbatim>\<open>src/utils/data_quality.py\<close> reads pandas tables. A column is a
  typed series: \<^verbatim>\<open>int64\<close> (no nulls), \<^verbatim>\<open>float64\<close> (\<open>None\<close> is NaN),
  \<^verbatim>\<open>object\<close> holding text (\<open>None\<close> is a missing value) and \<^verbatim>\<open>datetime64[ns]\<close>
  without time zone (nanoseconds since the epoch, \<open>None\<close> is NaT). Floating-point numbers are
  modelled by exact reals, text is ASCII, and column names are taken to be distinct, so that a
  loop over \<^verbatim>\<open>data.columns\<close> that reads \<^verbatim>\<open>data[col]\<close> is a loop over the columns.
\<close>

datatype series =
    IntS "int list"
  | FloatS "real option list"
  | TextS "string option list"
  | TimeS "int option list"

datatype cell = Null | IntV int | FloatV real | StrV string | TimeV int

record column =
  c_name :: string
  c_data :: series

record dataframe =
  df_rows :: nat
  df_cols :: "column list"

text \<open>A value of the \<^verbatim>\<open>master_data\<close> dictionary: a table, or anything else.\<close>

datatype py_value = DataFrame dataframe | NotAFrame

fun cells :: "series \<Rightarrow> cell list" where
  "cells (IntS xs) = map IntV xs"
| "cells (FloatS xs) = map (\<lambda>x. case x of None \<Rightarrow> Null | Some v \<Rightarrow> FloatV v) xs"
| "cells (TextS xs) = map (\<lambda>x. case x of None \<Rightarrow> Null | Some v \<Rightarrow> StrV v) xs"
| "cells (TimeS xs) = map (\<lambda>x. case x of None \<Rightarrow> Null | Some v \<Rightarrow> TimeV v) xs"

fun series_len :: "series \<Rightarrow> nat" where
  "series_len (IntS xs) = length xs"
| "series_len (FloatS xs) = length xs"
| "series_len (TextS xs) = length xs"
| "series_len (TimeS xs) = length xs"

text \<open>\<^verbatim>\<open>Series.isnull()\<close>: the mask of missing values.\<close>

fun isnull :: "series \<Rightarrow> bool list" where
  "isnull (IntS xs) = map (\<lambda>_. False) xs"
| "isnull (FloatS xs) = map (\<lambda>x. x = None) xs"
| "isnull (TextS xs) = map (\<lambda>x. x = None) xs"
| "isnull (TimeS xs) = map (\<lambda>x. x = None) xs"

text \<open>\<^verbatim>\<open>.sum()\<close> of a boolean series counts its true entries; \<^verbatim>\<open>.mean()\<close> divides
  that count by the length.\<close>

definition count_true :: "bool list \<Rightarrow> nat" where
  "count_true bs = length (filter (\<lambda>b. b) bs)"

definition mean_bool :: "bool list \<Rightarrow> real" where
  "mean_bool bs = real (count_true bs) / real (length bs)"

definition mean_real :: "real list \<Rightarrow> real" where
  "mean_real xs = sum_list xs / real (length xs)"

definition null_count :: "series \<Rightarrow> nat" where
  "null_count s = count_true (isnull s)"

text \<open>\<^verbatim>\<open>data.empty\<close> holds when an axis has length zero; \<^verbatim>\<open>data.size\<close> is rows times
  columns; \<^verbatim>\<open>data.columns\<close> the names in order.\<close>

definition df_empty :: "dataframe \<Rightarrow> bool" where
  "df_empty data = (df_rows data = 0 \<or> df_cols data = [])"

definition df_size :: "dataframe \<Rightarrow> nat" where
  "df_size data = df_rows data * length (df_cols data)"

definition columns :: "dataframe \<Rightarrow> string list" where
  "columns data = map c_name (df_cols data)"

text \<open>\<^verbatim>\<open>data[name]\<close> for a name known to be a column.\<close>

definition get_col :: "dataframe \<Rightarrow> string \<Rightarrow> series option" where
  "get_col data name = map_option c_data (find (\<lambda>c. c_name c = name) (df_cols data))"

text \<open>The shape every pandas table has: each column as long as the index, names distinct.\<close>

definition wf_df :: "dataframe \<Rightarrow> bool" where
  "wf_df data = (list_all (\<lambda>c. series_len (c_data c) = df_rows data) (df_cols data)
     \<and> distinct (columns data))"

fun wf_value :: "py_value \<Rightarrow> bool" where
  "wf_value (DataFrame data) = wf_df data"
| "wf_value NotAFrame = True"

section \<open>Text\<close>

definition upper_chars :: string where
  "upper_chars = ''ABCDEFGHIJKLMNOPQRSTUVWXYZ''"

definition lower_chars :: string where
  "lower_chars = ''abcdefghijklmnopqrstuvwxyz''"

definition char_lower :: "char \<Rightarrow> char" where
  "char_lower c = (case map_of (zip upper_chars lower_chars) c of Some l \<Rightarrow> l | None \<Rightarrow> c)"

text \<open>\<^verbatim>\<open>str.lower()\<close> and the substring test \<^verbatim>\<open>sub in s\<close>.\<close>

definition lower :: "string \<Rightarrow> string" where
  "lower s = map char_lower s"

fun starts_with :: "string \<Rightarrow> string \<Rightarrow> bool" where
  "starts_with s [] = True"
| "starts_with [] (p # ps) = False"
| "starts_with (c # cs) (p # ps) = (c = p \<and> starts_with cs ps)"

fun str_in :: "string \<Rightarrow> string \<Rightarrow> bool" where
  "str_in sub [] = (sub = [])"
| "str_in sub (c # cs) = (starts_with (c # cs) sub \<or> str_in sub cs)"

text \<open>\<^verbatim>\<open>str.isupper()\<close>, \<^verbatim>\<open>str.islower()\<close>: no cased character of the other case, and at
  least one cased character. \<^verbatim>\<open>str.istitle()\<close>: an upper-case letter only after an uncased
  character, a lower-case letter only after a cased one, and at least one cased character.\<close>

definition is_upper_char :: "char \<Rightarrow> bool" where
  "is_upper_char c = (c \<in> set upper_chars)"

definition is_lower_char :: "char \<Rightarrow> bool" where
  "is_lower_char c = (c \<in> set lower_chars)"

definition isupper :: "string \<Rightarrow> bool" where
  "isupper s = (\<not> list_ex is_lower_char s \<and> list_ex is_upper_char s)"

definition islower :: "string \<Rightarrow> bool" where
  "islower s = (\<not> list_ex is_upper_char s \<and> list_ex is_lower_char s)"

fun istitle_from :: "bool \<Rightarrow> bool \<Rightarrow> string \<Rightarrow> bool" where
  "istitle_from cased previous_is_cased [] = cased"
| "istitle_from cased previous_is_cased (ch # s) =
     (if is_upper_char ch then
        (if previous_is_cased then False else istitle_from True True s)
      else if is_lower_char ch then
        (if \<not> previous_is_cased then False else istitle_from True True s)
      else istitle_from cased False s)"

definition istitle :: "string \<Rightarrow> bool" where
  "istitle s = istitle_from False False s"

section \<open>Completeness\<close>

definition calculate_completeness :: "dataframe \<Rightarrow> real" where
  "calculate_completeness data =
     (if df_empty data then 0
      else
        let total_cells = df_size data;
            missing_cells = sum_list (map (\<lambda>c. null_count (c_data c)) (df_cols data))
        in if total_cells = 0 then 0
           else 100 * (1 - real missing_cells / real total_cells))"

section \<open>Consistency\<close>

fun dropna :: "'a option list \<Rightarrow> 'a list" where
  "dropna [] = []"
| "dropna (None # xs) = dropna xs"
| "dropna (Some v # xs) = v # dropna xs"

text \<open>\<^verbatim>\<open>isinstance(x, (int, float))\<close> on a value of a column; NaN is a float.\<close>

fun is_number :: "cell \<Rightarrow> bool" where
  "is_number (IntV _) = True"
| "is_number (FloatV _) = True"
| "is_number Null = True"
| "is_number (StrV _) = False"
| "is_number (TimeV _) = False"

definition numeric_consistency :: "series \<Rightarrow> real list" where
  "numeric_consistency s =
     (let non_numeric = map (\<lambda>x. x \<noteq> Null \<and> \<not> is_number x) (cells s)
      in if list_ex (\<lambda>b. b) non_numeric then [100 * (1 - mean_bool non_numeric)] else [])"

definition case_consistency :: "string list \<Rightarrow> real list" where
  "case_consistency non_null_values =
     (if length non_null_values > 0 then
        let upper_case = mean_bool (map isupper non_null_values);
            lower_case = mean_bool (map islower non_null_values);
            title_case = mean_bool (map istitle non_null_values);
            max_case = max upper_case (max lower_case title_case)
        in if max_case > 0.5 then [100 * max_case] else []
      else [])"

text \<open>The body of the loop over the columns: a column that is all null is skipped, a numeric
  column is checked for non-numeric values, a text column for its dominant letter case.\<close>

definition generic_consistency :: "series \<Rightarrow> real list" where
  "generic_consistency s =
     (if list_all (\<lambda>b. b) (isnull s) then []
      else case s of
          IntS xs \<Rightarrow> numeric_consistency s
        | FloatS xs \<Rightarrow> numeric_consistency s
        | TextS xs \<Rightarrow> case_consistency (dropna xs)
        | TimeS xs \<Rightarrow> [])"

text \<open>Decimal text of integers, as \<^verbatim>\<open>str\<close> prints them.\<close>

definition digit_char :: "nat \<Rightarrow> char" where
  "digit_char d = ''0123456789'' ! d"

function nat_str :: "nat \<Rightarrow> string" where
  "nat_str n = (if n < 10 then [digit_char n] else nat_str (n div 10) @ [digit_char (n mod 10)])"
  by pat_completeness auto
termination
  by (relation "measure (\<lambda>n. n)") auto

definition int_str :: "int \<Rightarrow> string" where
  "int_str i = (if i < 0 then ''-'' @ nat_str (nat (- i)) else nat_str (nat i))"

text \<open>
  \<^verbatim>\<open>series.dropna().astype(str)\<close>: text stays as it is and integers print in decimal. How
  pandas prints floats and timestamps is not fixed here: it is the parameter \<open>render\<close>, the
  list of strings printed for the non-null values of such a column.
\<close>

fun astype_str :: "(series \<Rightarrow> string list) \<Rightarrow> series \<Rightarrow> string list" where
  "astype_str render (TextS xs) = dropna xs"
| "astype_str render (IntS xs) = map int_str xs"
| "astype_str render (FloatS xs) = render (FloatS xs)"
| "astype_str render (TimeS xs) = render (TimeS xs)"

text \<open>\<^verbatim>\<open>Series.std()\<close> is the sample deviation (\<open>ddof = 1\<close>), NaN (\<open>None\<close>) for a single
  value. \<^verbatim>\<open>100 * (1 - std / mean)\<close> is NaN also when the mean is 0: the values are lengths, so
  they are then all 0 and so is the deviation.\<close>

definition std_sample :: "real list \<Rightarrow> real option" where
  "std_sample xs =
     (if length xs \<le> 1 then None
      else Some (sqrt (sum_list (map (\<lambda>x. (x - mean_real xs)\<^sup>2) xs) / real (length xs - 1))))"

definition length_consistency :: "nat list \<Rightarrow> real option" where
  "length_consistency lens =
     (case std_sample (map real lens) of
        None \<Rightarrow> None
      | Some sd \<Rightarrow>
          if mean_real (map real lens) = 0 then None
          else Some (100 * (1 - sd / mean_real (map real lens))))"

text \<open>\<^verbatim>\<open>max(0, min(100, x))\<close>\<close>

definition clamp_0_100 :: "real \<Rightarrow> real" where
  "clamp_0_100 x = max 0 (min 100 x)"

definition id_length_consistency :: "(series \<Rightarrow> string list) \<Rightarrow> dataframe \<Rightarrow> string \<Rightarrow> real list" where
  "id_length_consistency render data name =
     (case get_col data name of
        None \<Rightarrow> []
      | Some s \<Rightarrow>
          let codes = astype_str render s
          in if length codes > 0 then
               (case length_consistency (map length codes) of
                  None \<Rightarrow> []
                | Some v \<Rightarrow> [clamp_0_100 v])
             else [])"

definition consistency_scores :: "(series \<Rightarrow> string list) \<Rightarrow> string \<Rightarrow> dataframe \<Rightarrow> real list" where
  "consistency_scores render data_type data =
     concat (map (\<lambda>c. generic_consistency (c_data c)) (df_cols data)) @
     (if data_type = ''Products'' then id_length_consistency render data ''ProductID''
      else if data_type = ''Locations'' then id_length_consistency render data ''LocationID''
      else [])"

definition calculate_consistency :: "(series \<Rightarrow> string list) \<Rightarrow> string \<Rightarrow> dataframe \<Rightarrow> real" where
  "calculate_consistency render data_type data =
     (if df_empty data then 0
      else if consistency_scores render data_type data = [] then 95
      else sum_list (consistency_scores render data_type data)
             / real (length (consistency_scores render data_type data)))"

section \<open>Validity\<close>

text \<open>The clock is read by \<^verbatim>\<open>datetime.datetime.now()\<close>; its reading is the parameter
  \<open>now\<close>, in the unit of the timestamps. A comparison with NaT is false.\<close>

fun is_datetime :: "series \<Rightarrow> bool" where
  "is_datetime (TimeS _) = True"
| "is_datetime _ = False"

fun time_values :: "series \<Rightarrow> int option list" where
  "time_values (TimeS xs) = xs"
| "time_values _ = []"

definition future_score :: "int \<Rightarrow> column \<Rightarrow> real list" where
  "future_score now col =
     (if is_datetime (c_data col) then
        (if \<not> str_in ''future'' (lower (c_name col)) \<and> \<not> str_in ''forecast'' (lower (c_name col)) then
           let future_dates = map (\<lambda>x. case x of None \<Rightarrow> False | Some t \<Rightarrow> t > now)
                                  (time_values (c_data col));
               invalid_future = (if future_dates \<noteq> [] then mean_bool future_dates else 0)
           in [100 * (1 - invalid_future)]
         else [])
      else [])"

text \<open>\<^verbatim>\<open>100 * (col.isin(valid) | col.isna()).mean()\<close>, for a text column that is present.\<close>

definition isin_score :: "dataframe \<Rightarrow> string \<Rightarrow> string list \<Rightarrow> real list" where
  "isin_score data name valid =
     (case get_col data name of
        None \<Rightarrow> []
      | Some s \<Rightarrow>
          (case s of
             TextS xs \<Rightarrow>
               [100 * mean_bool (map (\<lambda>x. (case x of None \<Rightarrow> False | Some v \<Rightarrow> v \<in> set valid)
                                           \<or> x = None) xs)]
           | _ \<Rightarrow> []))"

definition validity_scores :: "int \<Rightarrow> string \<Rightarrow> dataframe \<Rightarrow> real list" where
  "validity_scores now data_type data =
     (let date_columns = filter (\<lambda>col. str_in ''date'' (lower (c_name col))
                                       \<or> str_in ''time'' (lower (c_name col))) (df_cols data)
      in concat (map (future_score now) date_columns) @
         (if data_type = ''Products'' then
            isin_score data ''ProductCategory'' [''RAW'', ''WIP'', ''FG'', ''SPARE'', ''SERVICE''] @
            isin_score data ''UnitOfMeasure'' [''EA'', ''KG'', ''L'', ''M'', ''PC'', ''CS'']
          else if data_type = ''Locations'' then
            isin_score data ''LocationType''
              [''PLANT'', ''DC'', ''WAREHOUSE'', ''STORE'', ''SUPPLIER'', ''CUSTOMER'']
          else []))"

definition calculate_validity :: "int \<Rightarrow> string \<Rightarrow> dataframe \<Rightarrow> real" where
  "calculate_validity now data_type data =
     (if df_empty data then 0
      else if validity_scores now data_type data = [] then 90
      else sum_list (validity_scores now data_type data)
             / real (length (validity_scores now data_type data)))"

section \<open>Uniqueness\<close>

definition key_mapping :: "(string \<times> string list) list" where
  "key_mapping =
     [(''Products'', [''ProductID'']),
      (''Locations'', [''LocationID'']),
      (''Customers'', [''CustomerID'']),
      (''Suppliers'', [''SupplierID'']),
      (''Time Profiles'', [''TimeProfileID'']),
      (''Resource Plans'', [''ResourceID''])]"

definition get_key_fields :: "string \<Rightarrow> dataframe \<Rightarrow> string list" where
  "get_key_fields data_type data =
     (case map_of key_mapping data_type of
        Some keys \<Rightarrow> filter (\<lambda>key. key \<in> set (columns data)) keys
      | None \<Rightarrow>
          let id_columns = filter (\<lambda>col. str_in ''id'' (lower col) \<or> str_in ''code'' (lower col)
                                         \<or> str_in ''key'' (lower col)) (columns data)
          in if id_columns \<noteq> [] then take 1 id_columns else [])"

text \<open>\<^verbatim>\<open>data[key_fields]\<close> row by row, and the number of rows \<^verbatim>\<open>drop_duplicates()\<close> keeps;
  two missing values count as equal.\<close>

definition key_rows :: "dataframe \<Rightarrow> string list \<Rightarrow> cell list list" where
  "key_rows data key_fields =
     map (\<lambda>i. map (\<lambda>field. case get_col data field of
                              None \<Rightarrow> Null
                            | Some s \<Rightarrow> cells s ! i) key_fields)
         [0 ..< df_rows data]"

definition calculate_uniqueness :: "string \<Rightarrow> dataframe \<Rightarrow> real" where
  "calculate_uniqueness data_type data =
     (if df_empty data then 0
      else
        let key_fields = get_key_fields data_type data
        in if key_fields = [] then 98
           else if list_all (\<lambda>field. field \<in> set (columns data)) key_fields then
             (let total_records = df_rows data;
                  unique_records = length (remdups (key_rows data key_fields))
              in if total_records = 0 then 0
                 else 100 * (real unique_records / real total_records))
           else 90)"

section \<open>Timeliness\<close>

definition days_90 :: int where
  "days_90 = 90 * 86400 * 1000000000"

definition calculate_timeliness :: "int \<Rightarrow> dataframe \<Rightarrow> real" where
  "calculate_timeliness now data =
     (if df_empty data then 0
      else
        case filter (\<lambda>col. list_ex (\<lambda>term. str_in term (lower (c_name col)))
                              [''update'', ''modified'', ''change'', ''timestamp''])
                    (df_cols data) of
          [] \<Rightarrow> 85
        | timestamp_col # _ \<Rightarrow>
            if \<not> is_datetime (c_data timestamp_col) then 85
            else
              let threshold_date = now - days_90;
                  recent_updates =
                    mean_bool (map (\<lambda>x. case x of None \<Rightarrow> False | Some t \<Rightarrow> t \<ge> threshold_date)
                                   (time_values (c_data timestamp_col)))
              in 100 * recent_updates)"

section \<open>Accuracy\<close>

text \<open>\<^verbatim>\<open>pd.api.types.is_numeric_dtype\<close> and the values of a numeric column as floats.\<close>

fun is_numeric_dtype :: "series \<Rightarrow> bool" where
  "is_numeric_dtype (IntS _) = True"
| "is_numeric_dtype (FloatS _) = True"
| "is_numeric_dtype _ = False"

fun num_values :: "series \<Rightarrow> real option list" where
  "num_values (IntS xs) = map (\<lambda>x. Some (real_of_int x)) xs"
| "num_values (FloatS xs) = xs"
| "num_values _ = []"

text \<open>\<^verbatim>\<open>Series.quantile(q)\<close>, linear interpolation between the two nearest of the sorted
  values.\<close>

definition quantile :: "real list \<Rightarrow> real \<Rightarrow> real" where
  "quantile xs q =
     (let ys = sort xs;
          pos = q * real (length ys - 1);
          lo = nat \<lfloor>pos\<rfloor>;
          frac = pos - real lo
      in if lo + 1 < length ys then ys ! lo + frac * (ys ! (lo + 1) - ys ! lo) else ys ! lo)"

definition dimension_accuracy :: "dataframe \<Rightarrow> string \<Rightarrow> real list" where
  "dimension_accuracy data col =
     (case get_col data col of
        None \<Rightarrow> []
      | Some s \<Rightarrow>
          if is_numeric_dtype s then
            (let negative_values =
                   mean_bool (map (\<lambda>x. case x of None \<Rightarrow> False | Some v \<Rightarrow> v < 0) (num_values s));
                 non_null_values = dropna (num_values s)
             in 100 * (1 - negative_values) #
                (if length non_null_values > 0 then
                   let q1 = quantile non_null_values 0.25;
                       q3 = quantile non_null_values 0.75;
                       iqr = q3 - q1;
                       lower_bound = q1 - 5 * iqr;
                       upper_bound = q3 + 5 * iqr;
                       extreme_outliers =
                         mean_bool (map (\<lambda>v. v < lower_bound \<or> v > upper_bound) non_null_values)
                   in [100 * (1 - extreme_outliers)]
                 else []))
          else [])"

definition range_accuracy :: "dataframe \<Rightarrow> string \<Rightarrow> real \<Rightarrow> real list" where
  "range_accuracy data col bound =
     (case get_col data col of
        None \<Rightarrow> []
      | Some s \<Rightarrow>
          if is_numeric_dtype s then
            [100 * (1 - mean_bool (map (\<lambda>x. case x of None \<Rightarrow> False
                                                | Some v \<Rightarrow> v < - bound \<or> v > bound)
                                       (num_values s)))]
          else [])"

definition accuracy_scores :: "string \<Rightarrow> dataframe \<Rightarrow> real list" where
  "accuracy_scores data_type data =
     (if data_type = ''Products'' then
        concat (map (dimension_accuracy data)
                    [''Weight'', ''Length'', ''Width'', ''Height'', ''Volume''])
      else if data_type = ''Locations'' then
        (if list_all (\<lambda>col. col \<in> set (columns data)) [''Latitude'', ''Longitude'']
         then range_accuracy data ''Latitude'' 90 @ range_accuracy data ''Longitude'' 180
         else [])
      else [])"

definition calculate_accuracy ::
  "(series \<Rightarrow> string list) \<Rightarrow> int \<Rightarrow> string \<Rightarrow> dataframe \<Rightarrow> real" where
  "calculate_accuracy render now data_type data =
     (if df_empty data then 0
      else if accuracy_scores data_type data = [] then
        (let completeness = calculate_completeness data;
             consistency = calculate_consistency render data_type data;
             validity = calculate_validity now data_type data;
             estimated_accuracy = 0.4 * completeness + 0.3 * consistency + 0.3 * validity
         in min 95 estimated_accuracy)
      else sum_list (accuracy_scores data_type data)
             / real (length (accuracy_scores data_type data)))"

section \<open>Reports\<close>

record issue_rec =
  field :: string
  issue :: string
  impact :: string

record report =
  completeness :: real
  consistency :: real
  validity :: real
  uniqueness :: real
  timeliness :: real
  accuracy :: real
  issues :: "issue_rec list"

text \<open>The format \<^verbatim>\<open>{x:.1f}\<close>: one decimal, rounded to the nearest tenth, a tie to the even
  one.\<close>

definition round_half_even :: "real \<Rightarrow> int" where
  "round_half_even x =
     (let f = \<lfloor>x\<rfloor>; d = x - of_int f
      in if d < 1 / 2 then f else if d > 1 / 2 then f + 1 else if even f then f else f + 1)"

definition format_1f :: "real \<Rightarrow> string" where
  "format_1f x =
     (let tenths = nat (round_half_even (\<bar>x\<bar> * 10))
      in (if x < 0 then ''-'' else []) @ nat_str (tenths div 10) @ ''.'' @ nat_str (tenths mod 10))"

text \<open>
  \<^verbatim>\<open>null_counts[null_counts > 0].sort_values(ascending=False)\<close>: the columns with a missing
  value, most missing values first (columns with equal counts stay in table order here), and
  the issue each one raises.
\<close>

definition problem_fields :: "dataframe \<Rightarrow> (string \<times> nat) list" where
  "problem_fields data =
     sort_key (\<lambda>(field, count). - int count)
       (filter (\<lambda>(field, count). count > 0)
          (map (\<lambda>c. (c_name c, null_count (c_data c))) (df_cols data)))"

definition missing_issue :: "dataframe \<Rightarrow> string \<times> nat \<Rightarrow> issue_rec list" where
  "missing_issue data fc =
     (let null_percentage = (real (snd fc) / real (df_rows data)) * 100
      in if null_percentage > 5 then
           [\<lparr>field = fst fc,
             issue = ''Missing values ('' @ format_1f null_percentage @ ''%)'',
             impact = (if null_percentage > 20 then ''High'' else ''Medium'')\<rparr>]
         else [])"

definition completeness_issues :: "dataframe \<Rightarrow> issue_rec list" where
  "completeness_issues data =
     (if calculate_completeness data < 95
      then concat (map (missing_issue data) (problem_fields data))
      else [])"

definition uniqueness_issues :: "real \<Rightarrow> issue_rec list" where
  "uniqueness_issues u =
     (if u < 100 then
        [\<lparr>field = ''Key fields'', issue = ''Duplicate records detected'',
          impact = (if u < 90 then ''High'' else ''Medium'')\<rparr>]
      else [])"

definition timeliness_issues :: "real \<Rightarrow> issue_rec list" where
  "timeliness_issues t =
     (if t < 80 then
        [\<lparr>field = ''Last updated'', issue = ''Many records not recently updated'',
          impact = ''Medium''\<rparr>]
      else [])"

definition analyze_data_health_for_type ::
  "(series \<Rightarrow> string list) \<Rightarrow> int \<Rightarrow> string \<Rightarrow> dataframe \<Rightarrow> report" where
  "analyze_data_health_for_type render now data_type data =
     \<lparr>completeness = calculate_completeness data,
      consistency = calculate_consistency render data_type data,
      validity = calculate_validity now data_type data,
      uniqueness = calculate_uniqueness data_type data,
      timeliness = calculate_timeliness now data,
      accuracy = calculate_accuracy render now data_type data,
      issues = completeness_issues data
               @ uniqueness_issues (calculate_uniqueness data_type data)
               @ timeliness_issues (calculate_timeliness now data)\<rparr>"

text \<open>The report of a value that is no table, or of an empty one.\<close>

definition no_data_report :: report where
  "no_data_report =
     \<lparr>completeness = 0, consistency = 0, validity = 0, uniqueness = 0, timeliness = 0,
      accuracy = 0,
      issues = [\<lparr>field = ''all'', issue = ''No data available'', impact = ''High''\<rparr>]\<rparr>"

text \<open>\<^verbatim>\<open>isinstance(data, pd.DataFrame) and not data.empty\<close>\<close>

fun is_nonempty_frame :: "py_value \<Rightarrow> bool" where
  "is_nonempty_frame (DataFrame data) = (\<not> df_empty data)"
| "is_nonempty_frame NotAFrame = False"

text \<open>
  \<^verbatim>\<open>master_data\<close> is a dictionary: its items in order, keys distinct. The result is the
  dictionary the loop fills by \<^verbatim>\<open>results[data_type] = ...\<close>.
\<close>

fun health_entry ::
  "(series \<Rightarrow> string list) \<Rightarrow> int \<Rightarrow> string \<Rightarrow> py_value \<Rightarrow> report" where
  "health_entry render now data_type (DataFrame data) =
     (if \<not> df_empty data
      then analyze_data_health_for_type render now data_type data
      else no_data_report)"
| "health_entry render now data_type NotAFrame = no_data_report"

definition analyze_data_health ::
  "(series \<Rightarrow> string list) \<Rightarrow> int \<Rightarrow> (string \<times> py_value) list \<Rightarrow> (string \<rightharpoonup> report)" where
  "analyze_data_health render now master_data =
     foldl (\<lambda>results (data_type, data). results(data_type \<mapsto> health_entry render now data_type data))
           Map.empty master_data"

section \<open>Aggregate scores\<close>

definition weights :: "(string \<times> real) list" where
  "weights =
     [(''completeness'', 0.25), (''consistency'', 0.2), (''validity'', 0.2),
      (''uniqueness'', 0.15), (''timeliness'', 0.1), (''accuracy'', 0.1)]"

text \<open>\<^verbatim>\<open>metrics[dimension]\<close> when \<^verbatim>\<open>dimension in metrics\<close>; the key \<^verbatim>\<open>"issues"\<close> holds no
  number and is not among the weights.\<close>

definition metric :: "report \<Rightarrow> string \<Rightarrow> real option" where
  "metric metrics dimension =
     map_of [(''completeness'', completeness metrics), (''consistency'', consistency metrics),
             (''validity'', validity metrics), (''uniqueness'', uniqueness metrics),
             (''timeliness'', timeliness metrics), (''accuracy'', accuracy metrics)] dimension"

definition weighted_score :: "report \<Rightarrow> real" where
  "weighted_score metrics =
     foldl (\<lambda>acc (dimension, weight).
              case metric metrics dimension of
                Some m \<Rightarrow> acc + (m / 10) * weight
              | None \<Rightarrow> acc)
           0 weights"

fun quality_entry ::
  "(series \<Rightarrow> string list) \<Rightarrow> int \<Rightarrow> string \<Rightarrow> py_value \<Rightarrow> real" where
  "quality_entry render now data_type (DataFrame data) =
     (if \<not> df_empty data
      then min (weighted_score (analyze_data_health_for_type render now data_type data)) 10
      else 0)"
| "quality_entry render now data_type NotAFrame = 0"

definition calculate_quality_scores ::
  "(series \<Rightarrow> string list) \<Rightarrow> int \<Rightarrow> (string \<times> py_value) list \<Rightarrow> (string \<rightharpoonup> real)" where
  "calculate_quality_scores render now master_data =
     foldl (\<lambda>quality_scores (data_type, data).
              quality_scores(data_type \<mapsto> quality_entry render now data_type data))
           Map.empty master_data"

section \<open>Notions the properties are stated with\<close>

text \<open>Every table of the dictionary has the shape of a pandas table.\<close>

definition wf_master_data :: "(string \<times> py_value) list \<Rightarrow> bool" where
  "wf_master_data master_data = list_all (\<lambda>(data_type, data). wf_value data) master_data"

definition percentage :: "real \<Rightarrow> bool" where
  "percentage x = (0 \<le> x \<and> x \<le> 100)"

text \<open>
  Replacing cells by nulls: \<open>set_null (j, i)\<close> puts a null at row \<open>i\<close> of column \<open>j\<close>
  (an integer column becomes a float column, as in pandas; a position outside the table
  changes nothing), and \<open>introduce_nulls\<close> does so for a list of positions.
\<close>

fun series_set_null :: "nat \<Rightarrow> series \<Rightarrow> series" where
  "series_set_null i (IntS xs) =
     (if i < length xs then FloatS ((map (\<lambda>x. Some (real_of_int x)) xs)[i := None]) else IntS xs)"
| "series_set_null i (FloatS xs) = FloatS (xs[i := None])"
| "series_set_null i (TextS xs) = TextS (xs[i := None])"
| "series_set_null i (TimeS xs) = TimeS (xs[i := None])"

definition set_null :: "nat \<times> nat \<Rightarrow> dataframe \<Rightarrow> dataframe" where
  "set_null p data =
     (if fst p < length (df_cols data) then
        data\<lparr>df_cols := (df_cols data)
               [fst p := (df_cols data ! fst p)
                  \<lparr>c_data := series_set_null (snd p) (c_data (df_cols data ! fst p))\<rparr>]\<rparr>
      else data)"

definition introduce_nulls :: "(nat \<times> nat) list \<Rightarrow> dataframe \<Rightarrow> dataframe" where
  "introduce_nulls ps data = fold set_null ps data"

text \<open>
  The uniqueness rule in the words of the specification: the key fields of a mapped type are
  those of the lookup table, whether the table has them or not; a key field that is not a
  column gives 90.
\<close>

definition spec_key_fields :: "string \<Rightarrow> dataframe \<Rightarrow> string list" where
  "spec_key_fields data_type data =
     (case map_of key_mapping data_type of
        Some keys \<Rightarrow> keys
      | None \<Rightarrow> take 1 (filter (\<lambda>col. str_in ''id'' (lower col) \<or> str_in ''code'' (lower col)
                                       \<or> str_in ''key'' (lower col)) (columns data)))"

definition spec_uniqueness :: "string \<Rightarrow> dataframe \<Rightarrow> real" where
  "spec_uniqueness data_type data =
     (if spec_key_fields data_type data = [] then 98
      else if \<not> list_all (\<lambda>field. field \<in> set (columns data)) (spec_key_fields data_type data)
      then 90
      else 100 * real (card (set (key_rows data (spec_key_fields data_type data))))
             / real (df_rows data))"

text \<open>The null rate of a column, in percent of the rows.\<close>

definition null_rate :: "dataframe \<Rightarrow> column \<Rightarrow> real" where
  "null_rate data c = 100 * real (null_count (c_data c)) / real (df_rows data)"

text \<open>The columns the timeliness score looks at, and the rows of a timestamp column that are
  recent, future, or not null.\<close>

definition timestamp_named :: "column \<Rightarrow> bool" where
  "timestamp_named col =
     (str_in ''update'' (lower (c_name col)) \<or> str_in ''modified'' (lower (c_name col))
      \<or> str_in ''change'' (lower (c_name col)) \<or> str_in ''timestamp'' (lower (c_name col)))"

definition recent_rows :: "int \<Rightarrow> int option list \<Rightarrow> nat" where
  "recent_rows now xs = length (filter (\<lambda>t. t \<ge> now - 7776000000000000) (dropna xs))"

definition future_rows :: "int \<Rightarrow> int option list \<Rightarrow> nat" where
  "future_rows now xs = length (filter (\<lambda>t. t > now) (dropna xs))"

definition non_null_rows :: "int option list \<Rightarrow> nat" where
  "non_null_rows xs = length (dropna xs)"

definition spec_timeliness :: "int \<Rightarrow> dataframe \<Rightarrow> real" where
  "spec_timeliness now data =
     (case filter timestamp_named (df_cols data) of
        [] \<Rightarrow> 85
      | col # _ \<Rightarrow>
          (case c_data col of
             TimeS xs \<Rightarrow> 100 * (real (recent_rows now xs) / real (df_rows data))
           | _ \<Rightarrow> 85))"

text \<open>The timeliness fraction as it would be with the null rows left out of the
  denominator.\<close>

definition timeliness_excluding_nulls :: "int \<Rightarrow> int option list \<Rightarrow> real" where
  "timeliness_excluding_nulls now xs = 100 * (real (recent_rows now xs) / real (non_null_rows xs))"

text \<open>No accuracy check applies: the type is neither Products nor Locations, or a Products
  table has none of the five measures as a numeric column, or a Locations table lacks a
  coordinate column or has both coordinates non-numeric.\<close>

definition numeric_column :: "dataframe \<Rightarrow> string \<Rightarrow> bool" where
  "numeric_column data name =
     (case get_col data name of None \<Rightarrow> False | Some s \<Rightarrow> is_numeric_dtype s)"

definition no_accuracy_check :: "string \<Rightarrow> dataframe \<Rightarrow> bool" where
  "no_accuracy_check data_type data =
     (if data_type = ''Products'' then
        \<not> list_ex (numeric_column data) [''Weight'', ''Length'', ''Width'', ''Height'', ''Volume'']
      else if data_type = ''Locations'' then
        ''Latitude'' \<notin> set (columns data) \<or> ''Longitude'' \<notin> set (columns data)
        \<or> (\<not> numeric_column data ''Latitude'' \<and> \<not> numeric_column data ''Longitude'')
      else True)"

text \<open>Two clock readings that no timestamp of the tables tells apart: each timestamp is
  after both or neither, and within 90 days of both or neither.\<close>

definition time_cells :: "dataframe \<Rightarrow> int list" where
  "time_cells data = concat (map (\<lambda>c. dropna (time_values (c_data c))) (df_cols data))"

fun same_readings_value :: "int \<Rightarrow> int \<Rightarrow> py_value \<Rightarrow> bool" where
  "same_readings_value now1 now2 (DataFrame data) =
     list_all (\<lambda>t. (t > now1) = (t > now2) \<and> (t \<ge> now1 - days_90) = (t \<ge> now2 - days_90))
              (time_cells data)"
| "same_readings_value now1 now2 NotAFrame = True"

definition same_readings :: "int \<Rightarrow> int \<Rightarrow> (string \<times> py_value) list \<Rightarrow> bool" where
  "same_readings now1 now2 master_data =
     list_all (\<lambda>(data_type, data). same_readings_value now1 now2 data) master_data"

text \<open>The example dimension scores of the specification.\<close>

definition example_metrics :: report where
  "example_metrics =
     \<lparr>completeness = 80, consistency = 90, validity = 90, uniqueness = 95, timeliness = 70,
      accuracy = 85, issues = []\<rparr>"

text \<open>Example inputs: a customers table with a missing name, a table without rows, and a
  value that is no table. No float or timestamp column is printed in them.\<close>

definition no_render :: "series \<Rightarrow> string list" where
  "no_render s = []"

definition example_customers :: dataframe where
  "example_customers =
     \<lparr>df_rows = 2,
      df_cols = [\<lparr>c_name = ''CustomerID'', c_data = IntS [1, 2]\<rparr>,
                 \<lparr>c_name = ''Name'', c_data = TextS [Some ''ACME'', None]\<rparr>]\<rparr>"

definition example_no_rows :: dataframe where
  "example_no_rows = \<lparr>df_rows = 0, df_cols = [\<lparr>c_name = ''ProductID'', c_data = IntS []\<rparr>]\<rparr>"

definition example_master_data :: "(string \<times> py_value) list" where
  "example_master_data =
     [(''Customers'', DataFrame example_customers),
      (''Products'', DataFrame example_no_rows),
      (''Suppliers'', NotAFrame)]"

text \<open>The name test of the key-field inference, and the six mapped types with their key.\<close>

definition id_like :: "string \<Rightarrow> bool" where
  "id_like col = (str_in ''id'' (lower col) \<or> str_in ''code'' (lower col) \<or> str_in ''key'' (lower col))"

definition mapped_keys :: "(string \<times> string) list" where
  "mapped_keys =
     [(''Products'', ''ProductID''), (''Locations'', ''LocationID''),
      (''Customers'', ''CustomerID''), (''Suppliers'', ''SupplierID''),
      (''Time Profiles'', ''TimeProfileID''), (''Resource Plans'', ''ResourceID'')]"

text \<open>More example inputs: a products table without its key column; ten orders with one
  repeated identifier; a table of four rows and five columns with a single missing value; ten
  rows with an update timestamp, three of them recent at the clock reading \<open>example_now\<close>,
  one missing.\<close>

definition example_products_no_key :: dataframe where
  "example_products_no_key =
     \<lparr>df_rows = 1, df_cols = [\<lparr>c_name = ''Name'', c_data = TextS [Some ''Bolt'']\<rparr>]\<rparr>"

definition example_orders :: dataframe where
  "example_orders =
     \<lparr>df_rows = 10, df_cols = [\<lparr>c_name = ''ID'', c_data = IntS [1, 2, 3, 4, 5, 6, 7, 8, 9, 1]\<rparr>]\<rparr>"

definition example_sparse :: dataframe where
  "example_sparse =
     \<lparr>df_rows = 4,
      df_cols = [\<lparr>c_name = ''A'', c_data = FloatS [None, Some 1, Some 2, Some 3]\<rparr>,
                 \<lparr>c_name = ''B'', c_data = IntS [1, 2, 3, 4]\<rparr>,
                 \<lparr>c_name = ''C'', c_data = IntS [1, 2, 3, 4]\<rparr>,
                 \<lparr>c_name = ''D'', c_data = IntS [1, 2, 3, 4]\<rparr>,
                 \<lparr>c_name = ''E'', c_data = IntS [1, 2, 3, 4]\<rparr>]\<rparr>"

definition example_now :: int where
  "example_now = 10000000000000000"

definition example_stamps :: "int option list" where
  "example_stamps =
     [Some 9000000000000000, Some 9000000000000000, Some 9000000000000000,
      Some 1000000000000000, Some 1000000000000000, Some 1000000000000000,
      Some 1000000000000000, Some 1000000000000000, Some 1000000000000000, None]"

definition example_updates :: dataframe where
  "example_updates =
     \<lparr>df_rows = 10, df_cols = [\<lparr>c_name = ''UpdatedAt'', c_data = TimeS example_stamps\<rparr>]\<rparr>"

section \<open>Dictionaries filled by a loop\<close>

lemma dict_fill_lookup:
  "distinct (map fst items) \<Longrightarrow> (k, v) \<in> set items \<Longrightarrow>
   foldl (\<lambda>m (a, b). m(a \<mapsto> f a b)) m0 items k = Some (f k v)"
proof (induction items arbitrary: m0 rule: rev_induct)
  case Nil
  then show ?case by simp
next
  case (snoc x xs)
  obtain a b where x: "x = (a, b)" by (cases x)
  show ?case
  proof (cases "a = k")
    case True
    with snoc.prems x have "b = v"
      by force
    with True x show ?thesis by simp
  next
    case False
    with snoc x show ?thesis by auto
  qed
qed

lemma dict_fill_origin:
  "foldl (\<lambda>m (a, b). m(a \<mapsto> f a b)) m0 items k = Some r \<Longrightarrow>
   (\<exists>v. (k, v) \<in> set items \<and> r = f k v) \<or> m0 k = Some r"
proof (induction items arbitrary: r rule: rev_induct)
  case Nil
  then show ?case by simp
next
  case (snoc x xs)
  obtain a b where x: "x = (a, b)" by (cases x)
  show ?case
  proof (cases "a = k")
    case True
    with snoc.prems x show ?thesis by auto
  next
    case False
    have "foldl (\<lambda>m (a, b). m(a \<mapsto> f a b)) m0 (xs @ [x]) k
            = ((foldl (\<lambda>m (a, b). m(a \<mapsto> f a b)) m0 xs)(a \<mapsto> f a b)) k"
      by (simp add: x)
    also have "\<dots> = foldl (\<lambda>m (a, b). m(a \<mapsto> f a b)) m0 xs k"
      using False by simp
    finally have eq: "foldl (\<lambda>m (a, b). m(a \<mapsto> f a b)) m0 (xs @ [x]) k
            = foldl (\<lambda>m (a, b). m(a \<mapsto> f a b)) m0 xs k" .
    from snoc.prems have "foldl (\<lambda>m (a, b). m(a \<mapsto> f a b)) m0 xs k = Some r"
      unfolding eq .
    from snoc.IH [OF this] show ?thesis by auto
  qed
qed

section \<open>Completeness and nulls\<close>

lemma null_count_set_null: "null_count s \<le> null_count (series_set_null i s)"
proof -
  have mono: "count_true (map (\<lambda>x. x = None) xs) \<le> count_true (map (\<lambda>x. x = None) (xs[i := None]))"
    for xs :: "'a option list"
  proof (induction xs arbitrary: i)
    case Nil
    then show ?case by simp
  next
    case (Cons x xs)
    then show ?case by (cases i) (auto simp: count_true_def le_SucI)
  qed
  show ?thesis
  proof (cases s)
    case (IntS xs)
    then show ?thesis by (simp add: null_count_def count_true_def)
  qed (use mono in \<open>simp_all add: null_count_def\<close>)
qed

lemma missing_cells_set_null:
  "sum_list (map (\<lambda>c. null_count (c_data c)) (df_cols data))
     \<le> sum_list (map (\<lambda>c. null_count (c_data c)) (df_cols (set_null p data)))"
proof (cases "fst p < length (df_cols data)")
  case False
  then show ?thesis by (simp add: set_null_def)
next
  case True
  have upd: "sum_list (map g xs) \<le> sum_list (map g (xs[j := y]))"
    if "j < length xs" "g (xs ! j) \<le> g y" for g :: "column \<Rightarrow> nat" and xs j y
    using that
  proof (induction xs arbitrary: j)
    case Nil
    then show ?case by simp
  next
    case (Cons x xs)
    then show ?case by (cases j) (auto simp: add_mono)
  qed
  from True show ?thesis
    by (simp add: set_null_def upd null_count_set_null)
qed

lemma shape_set_null:
  "df_rows (set_null p data) = df_rows data"
  "length (df_cols (set_null p data)) = length (df_cols data)"
  by (simp_all add: set_null_def)

lemma completeness_set_null:
  "calculate_completeness (set_null p data) \<le> calculate_completeness data"
proof -
  let ?m = "sum_list (map (\<lambda>c. null_count (c_data c)) (df_cols data))"
  let ?m' = "sum_list (map (\<lambda>c. null_count (c_data c)) (df_cols (set_null p data)))"
  have "(df_cols (set_null p data) = []) = (df_cols data = [])"
    using shape_set_null(2) [of p data] by (metis length_0_conv)
  then have e: "df_empty (set_null p data) = df_empty data"
    by (simp add: df_empty_def shape_set_null(1))
  have s: "df_size (set_null p data) = df_size data"
    by (simp add: df_size_def shape_set_null)
  have "real ?m / real (df_size data) \<le> real ?m' / real (df_size data)"
    using missing_cells_set_null [of data p] by (simp add: divide_right_mono)
  then show ?thesis
    by (simp add: calculate_completeness_def e s Let_def)
qed

text \<open>
  Claim C9. For every table, replacing cells of any columns by nulls, all else equal, never
  increases the completeness score: the score after introducing nulls at any list of
  positions is at most the score before.
\<close>

theorem completeness_monotone:
  "calculate_completeness (introduce_nulls ps data) \<le> calculate_completeness data"
  unfolding introduce_nulls_def
proof (induction ps arbitrary: data)
  case Nil
  then show ?case by simp
next
  case (Cons p ps)
  have "calculate_completeness (fold set_null ps (set_null p data))
          \<le> calculate_completeness (set_null p data)"
    by (rule Cons.IH)
  also have "\<dots> \<le> calculate_completeness data"
    by (rule completeness_set_null)
  finally show ?case by simp
qed

section \<open>Scores are percentages\<close>

lemma count_true_le: "count_true bs \<le> length bs"
  by (simp add: count_true_def)

lemma mean_bool_range: "0 \<le> mean_bool bs \<and> mean_bool bs \<le> 1"
proof (cases "bs = []")
  case True
  then show ?thesis by (simp add: mean_bool_def)
next
  case False
  then have "0 < real (length bs)" by simp
  moreover have "real (count_true bs) \<le> real (length bs)"
    using count_true_le [of bs] by simp
  ultimately show ?thesis
    by (simp add: mean_bool_def)
qed

lemma percentage_mean_bool: "percentage (100 * mean_bool bs)"
  using mean_bool_range [of bs] by (simp add: percentage_def)

lemma percentage_mean_bool_compl:
  "percentage (100 * (1 - mean_bool bs))" "percentage (100 - 100 * mean_bool bs)"
  using mean_bool_range [of bs] by (simp_all add: percentage_def)

lemma percentage_ratio:
  assumes "a \<le> n" and "0 < n"
  shows "percentage (100 * (real a / real n))" "percentage (100 * (1 - real a / real n))"
proof -
  from assms have "0 \<le> real a / real n \<and> real a / real n \<le> 1"
    by simp
  then show "percentage (100 * (real a / real n))" "percentage (100 * (1 - real a / real n))"
    by (simp_all add: percentage_def)
qed

lemma sum_list_bounds:
  fixes xs :: "real list"
  assumes "\<forall>x\<in>set xs. percentage x"
  shows "0 \<le> sum_list xs \<and> sum_list xs \<le> 100 * real (length xs)"
  using assms by (induction xs) (auto simp: percentage_def)

lemma percentage_average:
  fixes xs :: "real list"
  assumes "xs \<noteq> []" and "\<forall>x\<in>set xs. percentage x"
  shows "percentage (sum_list xs / real (length xs))"
proof -
  from assms(1) have pos: "0 < real (length xs)" by simp
  from sum_list_bounds [OF assms(2)] pos show ?thesis
    by (simp add: percentage_def pos_divide_le_eq)
qed

lemma percentage_simps: "percentage 0" "percentage 85" "percentage 90" "percentage 95" "percentage 98"
  by (simp_all add: percentage_def)

lemma null_count_le: "null_count s \<le> series_len s"
  using count_true_le [of "isnull s"] by (cases s) (simp_all add: null_count_def)

lemma missing_cells_le:
  assumes "wf_df data"
  shows "sum_list (map (\<lambda>c. null_count (c_data c)) (df_cols data)) \<le> df_size data"
proof -
  have "sum_list (map (\<lambda>c. null_count (c_data c)) cs) \<le> n * length cs"
    if "list_all (\<lambda>c. series_len (c_data c) = n) cs" for cs n
    using that
  proof (induction cs)
    case Nil
    then show ?case by simp
  next
    case (Cons c cs)
    then show ?case using null_count_le [of "c_data c"] by auto
  qed
  from this [of "df_rows data" "df_cols data"] assms show ?thesis
    by (simp add: wf_df_def df_size_def)
qed

lemma percentage_completeness:
  assumes "wf_df data"
  shows "percentage (calculate_completeness data)"
proof (cases "df_empty data \<or> df_size data = 0")
  case True
  then show ?thesis by (auto simp: calculate_completeness_def percentage_def Let_def)
next
  case False
  let ?m = "sum_list (map (\<lambda>c. null_count (c_data c)) (df_cols data))"
  from False have pos: "0 < df_size data" by simp
  have "percentage (100 * (1 - real ?m / real (df_size data)))"
    using missing_cells_le [OF assms] pos by (rule percentage_ratio)
  with False show ?thesis
    by (simp add: calculate_completeness_def Let_def)
qed

lemma percentage_generic_consistency: "\<forall>x\<in>set (generic_consistency s). percentage x"
proof -
  have n: "\<forall>x\<in>set (numeric_consistency t). percentage x" for t
    by (simp add: numeric_consistency_def Let_def percentage_mean_bool_compl)
  have c: "\<forall>x\<in>set (case_consistency vs). percentage x" for vs
    using percentage_mean_bool [of "map isupper vs"] percentage_mean_bool [of "map islower vs"]
      percentage_mean_bool [of "map istitle vs"]
    by (auto simp: case_consistency_def Let_def max_def)
  show ?thesis
    using n c by (cases s) (simp_all add: generic_consistency_def)
qed

lemma percentage_clamp: "percentage (clamp_0_100 v)"
  by (auto simp: percentage_def clamp_0_100_def max_def min_def)

lemma percentage_id_length_consistency:
  "\<forall>x\<in>set (id_length_consistency render data name). percentage x"
proof (cases "get_col data name")
  case None
  then show ?thesis by (simp add: id_length_consistency_def)
next
  case (Some s)
  show ?thesis
  proof (cases "0 < length (astype_str render s)")
    case True
    with Some show ?thesis
      by (auto simp: id_length_consistency_def Let_def percentage_clamp)
  next
    case False
    with Some show ?thesis by (simp add: id_length_consistency_def Let_def)
  qed
qed

lemma percentage_consistency_scores:
  "\<forall>x\<in>set (consistency_scores render data_type data). percentage x"
  using percentage_generic_consistency percentage_id_length_consistency
  by (auto simp: consistency_scores_def)

lemma percentage_consistency: "percentage (calculate_consistency render data_type data)"
  using percentage_consistency_scores [of render data_type data]
  by (simp add: calculate_consistency_def percentage_simps percentage_average)

lemma percentage_future_score: "\<forall>x\<in>set (future_score now col). percentage x"
  using percentage_mean_bool_compl
  by (auto simp: future_score_def Let_def percentage_def)

lemma percentage_isin_score: "\<forall>x\<in>set (isin_score data name valid). percentage x"
  using percentage_mean_bool
  by (auto simp: isin_score_def split: option.splits series.splits)

lemma percentage_validity_scores: "\<forall>x\<in>set (validity_scores now data_type data). percentage x"
  using percentage_future_score percentage_isin_score
  by (auto simp: validity_scores_def Let_def)

lemma percentage_validity: "percentage (calculate_validity now data_type data)"
  using percentage_validity_scores [of now data_type data]
  by (simp add: calculate_validity_def percentage_simps percentage_average)

lemma percentage_accuracy_scores: "\<forall>x\<in>set (accuracy_scores data_type data). percentage x"
proof -
  have d: "\<forall>x\<in>set (dimension_accuracy data col). percentage x" for col
    using percentage_mean_bool_compl
    by (auto simp: dimension_accuracy_def Let_def split: option.splits)
  have r: "\<forall>x\<in>set (range_accuracy data col b). percentage x" for col b
    using percentage_mean_bool_compl
    by (auto simp: range_accuracy_def split: option.splits)
  show ?thesis
    using d r by (auto simp: accuracy_scores_def)
qed

lemma percentage_accuracy:
  assumes "wf_df data"
  shows "percentage (calculate_accuracy render now data_type data)"
proof -
  have est: "percentage (min 95 (0.4 * calculate_completeness data
               + 0.3 * calculate_consistency render data_type data
               + 0.3 * calculate_validity now data_type data))"
    using percentage_completeness [OF assms] percentage_consistency [of render data_type data]
      percentage_validity [of now data_type data]
    by (simp add: percentage_def min_def)
  show ?thesis
    using est percentage_accuracy_scores [of data_type data]
    by (simp add: calculate_accuracy_def Let_def percentage_simps percentage_average)
qed

lemma percentage_uniqueness: "percentage (calculate_uniqueness data_type data)"
proof -
  have "length (remdups (key_rows data ks)) \<le> df_rows data" for ks
    using length_remdups_leq [of "key_rows data ks"] by (simp add: key_rows_def)
  then have "percentage (100 * (real (length (remdups (key_rows data ks))) / real (df_rows data)))"
    if "df_rows data \<noteq> 0" for ks
    using that by (intro percentage_ratio) auto
  then show ?thesis
    by (simp add: calculate_uniqueness_def Let_def percentage_simps)
qed

lemma percentage_timeliness: "percentage (calculate_timeliness now data)"
  using percentage_mean_bool
  by (simp add: calculate_timeliness_def Let_def percentage_simps split: list.splits)

section \<open>Reports and aggregate scores\<close>

lemma weighted_score_eq:
  "weighted_score m =
     0.25 * (completeness m / 10) + 0.2 * (consistency m / 10) + 0.2 * (validity m / 10)
     + 0.15 * (uniqueness m / 10) + 0.1 * (timeliness m / 10) + 0.1 * (accuracy m / 10)"
  by (simp add: weighted_score_def weights_def metric_def)

lemma weighted_score_range:
  assumes "percentage (completeness m)" "percentage (consistency m)" "percentage (validity m)"
    "percentage (uniqueness m)" "percentage (timeliness m)" "percentage (accuracy m)"
  shows "0 \<le> weighted_score m \<and> weighted_score m \<le> 10"
proof -
  have "weighted_score m =
      (25 * completeness m + 20 * consistency m + 20 * validity m + 15 * uniqueness m
       + 10 * timeliness m + 10 * accuracy m) / 1000"
    by (simp add: weighted_score_eq)
  with assms show ?thesis
    by (simp add: percentage_def)
qed

lemma percentage_report:
  assumes "wf_df data"
  shows "percentage (completeness (analyze_data_health_for_type render now data_type data))"
    "percentage (consistency (analyze_data_health_for_type render now data_type data))"
    "percentage (validity (analyze_data_health_for_type render now data_type data))"
    "percentage (uniqueness (analyze_data_health_for_type render now data_type data))"
    "percentage (timeliness (analyze_data_health_for_type render now data_type data))"
    "percentage (accuracy (analyze_data_health_for_type render now data_type data))"
  using percentage_completeness [OF assms] percentage_accuracy [OF assms]
  by (simp_all add: analyze_data_health_for_type_def percentage_consistency percentage_validity
      percentage_uniqueness percentage_timeliness)

lemma percentage_health_entry:
  assumes "wf_value v"
  shows "percentage (completeness (health_entry render now k v))
    \<and> percentage (consistency (health_entry render now k v))
    \<and> percentage (validity (health_entry render now k v))
    \<and> percentage (uniqueness (health_entry render now k v))
    \<and> percentage (timeliness (health_entry render now k v))
    \<and> percentage (accuracy (health_entry render now k v))"
proof (cases v)
  case (DataFrame data)
  with assms have "wf_df data" by simp
  from percentage_report [OF this] DataFrame show ?thesis
    by (simp add: no_data_report_def percentage_simps)
next
  case NotAFrame
  then show ?thesis by (simp add: no_data_report_def percentage_simps)
qed

lemma quality_entry_range:
  assumes "wf_value v"
  shows "0 \<le> quality_entry render now k v \<and> quality_entry render now k v \<le> 10"
proof (cases v)
  case (DataFrame data)
  with assms have "wf_df data" by simp
  from weighted_score_range [OF percentage_report [OF this]] DataFrame show ?thesis
    by simp
next
  case NotAFrame
  then show ?thesis by simp
qed

lemma wf_master_data_member:
  "wf_master_data master_data \<Longrightarrow> (k, v) \<in> set master_data \<Longrightarrow> wf_value v"
  by (auto simp: wf_master_data_def list_all_iff)

text \<open>
  Claim C1. For every input mapping whose tables have the shape of pandas tables, each of
  the six dimension scores that analyze_data_health returns lies in [0, 100], and every
  aggregate score that calculate_quality_scores returns lies in [0, 10].
\<close>

theorem scores_in_range:
  assumes "wf_master_data master_data"
  shows "(\<forall>r. analyze_data_health render now master_data data_type = Some r \<longrightarrow>
            percentage (completeness r) \<and> percentage (consistency r) \<and> percentage (validity r)
            \<and> percentage (uniqueness r) \<and> percentage (timeliness r) \<and> percentage (accuracy r))
       \<and> (\<forall>s. calculate_quality_scores render now master_data data_type = Some s \<longrightarrow>
            0 \<le> s \<and> s \<le> 10)"
proof (intro conjI allI impI)
  fix r
  assume "analyze_data_health render now master_data data_type = Some r"
  then obtain v where v: "(data_type, v) \<in> set master_data" "r = health_entry render now data_type v"
    unfolding analyze_data_health_def
    by (auto dest: dict_fill_origin [where f = "health_entry render now"])
  from wf_master_data_member [OF assms v(1)] have w: "wf_value v" .
  from percentage_health_entry [OF w, of render now data_type] v(2)
  show "percentage (completeness r)" "percentage (consistency r)" "percentage (validity r)"
    "percentage (uniqueness r)" "percentage (timeliness r)" "percentage (accuracy r)"
    by simp_all
next
  fix s
  assume "calculate_quality_scores render now master_data data_type = Some s"
  then obtain v where v: "(data_type, v) \<in> set master_data" "s = quality_entry render now data_type v"
    unfolding calculate_quality_scores_def
    by (auto dest: dict_fill_origin [where f = "quality_entry render now"])
  from wf_master_data_member [OF assms v(1)] have w: "wf_value v" .
  from quality_entry_range [OF w, of render now data_type] v(2)
  show "0 \<le> s" "s \<le> 10" by simp_all
qed


lemmas text_defs = lower_def char_lower_def upper_chars_def lower_chars_def
  is_upper_char_def is_lower_char_def isupper_def islower_def istitle_def

lemma example_master_data_wf: "wf_master_data example_master_data"
  by (simp add: wf_master_data_def example_master_data_def wf_df_def columns_def
      example_customers_def example_no_rows_def)

lemma example_customers_scores:
  "calculate_completeness example_customers = 75"
  "calculate_consistency no_render ''Customers'' example_customers = 100"
  "calculate_validity 0 ''Customers'' example_customers = 90"
  "calculate_uniqueness ''Customers'' example_customers = 100"
  "calculate_timeliness 0 example_customers = 85"
proof -
  show "calculate_completeness example_customers = 75"
    by (simp add: calculate_completeness_def example_customers_def df_empty_def df_size_def
        null_count_def count_true_def)
  show "calculate_consistency no_render ''Customers'' example_customers = 100"
    by (simp add: calculate_consistency_def consistency_scores_def generic_consistency_def
        numeric_consistency_def case_consistency_def example_customers_def df_empty_def
        mean_bool_def count_true_def text_defs)
  show "calculate_validity 0 ''Customers'' example_customers = 90"
    by (simp add: calculate_validity_def validity_scores_def example_customers_def df_empty_def
        text_defs)
  show "calculate_uniqueness ''Customers'' example_customers = 100"
    by (simp add: calculate_uniqueness_def get_key_fields_def key_mapping_def columns_def
        key_rows_def get_col_def example_customers_def df_empty_def upt_rec)
  show "calculate_timeliness 0 example_customers = 85"
    by (simp add: calculate_timeliness_def example_customers_def df_empty_def text_defs)
qed

lemma example_customers_accuracy:
  "calculate_accuracy no_render 0 ''Customers'' example_customers = 87"
  by (simp add: calculate_accuracy_def accuracy_scores_def example_customers_scores Let_def)
    (simp add: example_customers_def df_empty_def)


lemma example_lookups:
  "analyze_data_health render now example_master_data ''Customers''
     = Some (analyze_data_health_for_type render now ''Customers'' example_customers)"
  "calculate_quality_scores render now example_master_data ''Customers''
     = Some (min (weighted_score
          (analyze_data_health_for_type render now ''Customers'' example_customers)) 10)"
  by (simp_all add: analyze_data_health_def calculate_quality_scores_def example_master_data_def
      example_customers_def example_no_rows_def df_empty_def)

theorem scores_in_range_witness:
  "wf_master_data example_master_data
   \<and> (\<exists>r. analyze_data_health no_render 0 example_master_data ''Customers'' = Some r
          \<and> percentage (completeness r) \<and> percentage (consistency r) \<and> percentage (validity r)
          \<and> percentage (uniqueness r) \<and> percentage (timeliness r) \<and> percentage (accuracy r))
   \<and> (\<exists>s. calculate_quality_scores no_render 0 example_master_data ''Customers'' = Some s
          \<and> 0 \<le> s \<and> s \<le> 10)"
  using scores_in_range [OF example_master_data_wf, of no_render 0 "''Customers''"]
    example_master_data_wf
  by (simp add: example_lookups)

text \<open>
  Claim C3. For a dataset that is no table, or a table that is empty (no rows, or no
  columns), analyze_data_health returns all six dimension scores 0 and exactly one issue,
  with field "all", description "No data available" and severity High, and
  calculate_quality_scores returns the aggregate score 0.
\<close>

theorem empty_dataset_report:
  assumes "distinct (map fst master_data)"
    and "(data_type, data) \<in> set master_data"
    and "data = NotAFrame \<or> (\<exists>d. data = DataFrame d \<and> df_empty d)"
  shows "analyze_data_health render now master_data data_type =
           Some \<lparr>completeness = 0, consistency = 0, validity = 0, uniqueness = 0,
                 timeliness = 0, accuracy = 0,
                 issues = [\<lparr>field = ''all'', issue = ''No data available'', impact = ''High''\<rparr>]\<rparr>
         \<and> calculate_quality_scores render now master_data data_type = Some 0"
proof -
  from assms(3) have "health_entry render now data_type data = no_data_report"
    and "quality_entry render now data_type data = 0"
    by auto
  with dict_fill_lookup [OF assms(1,2), of "health_entry render now" Map.empty]
    dict_fill_lookup [OF assms(1,2), of "quality_entry render now" Map.empty]
  show ?thesis
    by (simp add: analyze_data_health_def calculate_quality_scores_def no_data_report_def)
qed

theorem empty_dataset_report_witness:
  "distinct (map fst example_master_data)
   \<and> (''Products'', DataFrame example_no_rows) \<in> set example_master_data
   \<and> df_empty example_no_rows
   \<and> analyze_data_health no_render 0 example_master_data ''Products'' =
           Some \<lparr>completeness = 0, consistency = 0, validity = 0, uniqueness = 0,
                 timeliness = 0, accuracy = 0,
                 issues = [\<lparr>field = ''all'', issue = ''No data available'', impact = ''High''\<rparr>]\<rparr>
   \<and> calculate_quality_scores no_render 0 example_master_data ''Products'' = Some 0"
proof -
  have d: "distinct (map fst example_master_data)"
    and m: "(''Products'', DataFrame example_no_rows) \<in> set example_master_data"
    and e: "df_empty example_no_rows"
    by (simp_all add: example_master_data_def example_no_rows_def df_empty_def)
  from e have "DataFrame example_no_rows = NotAFrame
      \<or> (\<exists>d. DataFrame example_no_rows = DataFrame d \<and> df_empty d)"
    by simp
  from empty_dataset_report [OF d m this, of no_render 0] d m e show ?thesis
    by simp
qed

text \<open>
  Claim C2, amended. For every non-empty dataset the aggregate score is the weighted sum of
  the six dimension percentages, each first divided by 10, with weights completeness 0.25,
  consistency 0.20, validity 0.20, uniqueness 0.15, timeliness 0.10 and accuracy 0.10, capped
  at 10; the dimension scores (80, 90, 90, 95, 70, 85) yield
  0.25 * 8 + 0.20 * 9 + 0.20 * 9 + 0.15 * 9.5 + 0.10 * 7 + 0.10 * 8.5 = 8.575.
\<close>

theorem aggregate_weighted_sum:
  assumes "distinct (map fst master_data)"
    and "(data_type, DataFrame data) \<in> set master_data"
    and "\<not> df_empty data"
  shows "(\<exists>r. analyze_data_health render now master_data data_type = Some r
            \<and> calculate_quality_scores render now master_data data_type =
                Some (min (0.25 * (completeness r / 10) + 0.2 * (consistency r / 10)
                           + 0.2 * (validity r / 10) + 0.15 * (uniqueness r / 10)
                           + 0.1 * (timeliness r / 10) + 0.1 * (accuracy r / 10)) 10))
         \<and> weighted_score example_metrics
             = 0.25 * 8 + 0.2 * 9 + 0.2 * 9 + 0.15 * 9.5 + 0.1 * 7 + 0.1 * 8.5
         \<and> min (weighted_score example_metrics) 10 = 8.575"
proof -
  from assms(3) have
    "health_entry render now data_type (DataFrame data)
       = analyze_data_health_for_type render now data_type data"
    "quality_entry render now data_type (DataFrame data)
       = min (weighted_score (analyze_data_health_for_type render now data_type data)) 10"
    by simp_all
  with dict_fill_lookup [OF assms(1,2), of "health_entry render now" Map.empty]
    dict_fill_lookup [OF assms(1,2), of "quality_entry render now" Map.empty]
  have "analyze_data_health render now master_data data_type
          = Some (analyze_data_health_for_type render now data_type data)"
    and "calculate_quality_scores render now master_data data_type
          = Some (min (weighted_score (analyze_data_health_for_type render now data_type data)) 10)"
    by (simp_all add: analyze_data_health_def calculate_quality_scores_def)
  then have "\<exists>r. analyze_data_health render now master_data data_type = Some r
            \<and> calculate_quality_scores render now master_data data_type =
                Some (min (0.25 * (completeness r / 10) + 0.2 * (consistency r / 10)
                           + 0.2 * (validity r / 10) + 0.15 * (uniqueness r / 10)
                           + 0.1 * (timeliness r / 10) + 0.1 * (accuracy r / 10)) 10)"
    by (simp add: weighted_score_eq)
  moreover have "weighted_score example_metrics
             = 0.25 * 8 + 0.2 * 9 + 0.2 * 9 + 0.15 * 9.5 + 0.1 * 7 + 0.1 * 8.5"
    by (simp add: weighted_score_eq example_metrics_def)
  moreover have "min (weighted_score example_metrics) 10 = 8.575"
    by (simp add: weighted_score_eq example_metrics_def)
  ultimately show ?thesis by blast
qed

theorem aggregate_weighted_sum_witness:
  "distinct (map fst example_master_data)
   \<and> (''Customers'', DataFrame example_customers) \<in> set example_master_data
   \<and> \<not> df_empty example_customers
   \<and> calculate_quality_scores no_render 0 example_master_data ''Customers'' = Some 8.895
   \<and> min (weighted_score example_metrics) 10 = 8.575"
proof -
  have d: "distinct (map fst example_master_data)"
    and m: "(''Customers'', DataFrame example_customers) \<in> set example_master_data"
    and e: "\<not> df_empty example_customers"
    by (simp_all add: example_master_data_def example_customers_def df_empty_def)
  have r: "analyze_data_health no_render 0 example_master_data ''Customers'' = Some r \<Longrightarrow>
      completeness r = 75 \<and> consistency r = 100 \<and> validity r = 90 \<and> uniqueness r = 100
      \<and> timeliness r = 85 \<and> accuracy r = 87" for r
    by (auto simp: example_lookups analyze_data_health_for_type_def example_customers_scores
        example_customers_accuracy)
  from aggregate_weighted_sum [OF d m e, of no_render 0] d m e r show ?thesis
    by auto
qed

text \<open>Claim C2 as it is written fails: the example scores do not give 8.425.\<close>

theorem aggregate_example_counterexample:
  "weighted_score example_metrics
     = 0.25 * 8 + 0.2 * 9 + 0.2 * 9 + 0.15 * 9.5 + 0.1 * 7 + 0.1 * 8.5
   \<and> min (weighted_score example_metrics) 10 \<noteq> 8.425"
  by (simp add: weighted_score_def weights_def metric_def example_metrics_def)

end
